theory Spec2Isabelle
  imports Main
begin

section \<open>Errors and results\<close>

text \<open>
  The Python functions of \<^verbatim>\<open>diracx/routers/auth.py\<close> and
  \<^verbatim>\<open>diracx/routers/configuration.py\<close> either return a value or raise.
  A raise is the left injection of a sum. The text of a message built by an
  f-string is kept as tagged data (the values that are interpolated), not as the
  formatted string.
\<close>

text \<open>
  Modelled from the spec: the enum \<^verbatim>\<open>diracx.db.auth.schema.FlowStatus\<close> is not
  among the files at hand, and the module names \<^verbatim>\<open>FlowStatus.READY\<close> only. Its
  members are the statuses of the data model: a row is pending, ready or expired.
\<close>

datatype FlowStatus = PENDING | READY | EXPIRED

datatype message =
    Unrecognised_scopes "string list"
  | Only_one_group "string list"
  | Group_not_in_vo string string
  | Not_valid_properties "string set"
  | Not_a_member string string
  | Bad_client_id
  | Invalid_redirect_uri
  | Malformed_code_verifier
  | Invalid_code_challenge
  | Invalid_state
  | Grant_type_not_implemented string
  | Unexpected_flow_status FlowStatus
  | No_detail

datatype error =
    KeyError string
  | IndexError
  | AssertionError
  | OverflowError
  | ValueError message
  | NotImplementedError message
  | HTTPException nat message "(string \<times> string) list"
  | DiracHttpResponse nat "(string \<times> string) list"
  | PendingAuthorizationError
  | ExpiredFlowError
  | OtherError string

definition then_do :: "error + 'a \<Rightarrow> ('a \<Rightarrow> error + 'b) \<Rightarrow> error + 'b" where
  "then_do r f = (case r of Inl e \<Rightarrow> Inl e | Inr v \<Rightarrow> f v)"

text \<open>\<^verbatim>\<open>d[k]\<close> on a dict raises KeyError for a missing key.\<close>

definition getitem :: "(string \<rightharpoonup> 'v) \<Rightarrow> string \<Rightarrow> error + 'v" where
  "getitem d k = (case d k of None \<Rightarrow> Inl (KeyError k) | Some v \<Rightarrow> Inr v)"

text \<open>\<^verbatim>\<open>xs[0]\<close> on a list raises IndexError when the list is empty.\<close>

definition first_item :: "'a list \<Rightarrow> error + 'a" where
  "first_item xs = (case xs of [] \<Rightarrow> Inl IndexError | x # _ \<Rightarrow> Inr x)"

text \<open>
  A dict whose order matters is the list of its items in insertion order:
  \<^verbatim>\<open>d | {k: v}\<close> and \<^verbatim>\<open>d.update({k: v})\<close> replace the value of a key
  that is there and append a key that is not.
\<close>

fun dict_set :: "(string \<times> 'v) list \<Rightarrow> string \<Rightarrow> 'v \<Rightarrow> (string \<times> 'v) list" where
  "dict_set [] k v = [(k, v)]"
| "dict_set ((k', v') # d) k v =
     (if k' = k then (k, v) # d else (k', v') # dict_set d k v)"

section \<open>Configuration\<close>

text \<open>
  Modelled from the spec: the class \<^verbatim>\<open>diracx.core.config.Config\<close> is not
  among the files at hand. Its interface is the lookup by VO and group of the users and
  properties, and the default groups of a VO; the code reads
  \<^verbatim>\<open>config.Registry.Groups[vo][group].Users\<close>, \<^verbatim>\<open>.Properties\<close>,
  \<^verbatim>\<open>config.Registry.DefaultGroup[vo][0]\<close>, \<^verbatim>\<open>config._hexsha\<close> and
  \<^verbatim>\<open>config._modified\<close>. A time is a number of seconds.
\<close>

record group_config =
  Users :: "string list"
  Properties :: "string list"

record registry =
  DefaultGroup :: "string \<rightharpoonup> string list"
  Groups :: "string \<rightharpoonup> (string \<rightharpoonup> group_config)"

record config =
  Registry :: registry
  hexsha :: string
  modified :: int

section \<open>Constants of the module\<close>

definition ISSUER :: string where
  "ISSUER = ''http://lhcbdirac.cern.ch/''"

definition AUDIENCE :: string where
  "AUDIENCE = ''dirac''"

definition ACCESS_TOKEN_EXPIRE_MINUTES :: int where
  "ACCESS_TOKEN_EXPIRE_MINUTES = 3000"

definition DIRAC_CLIENT_ID :: string where
  "DIRAC_CLIENT_ID = ''myDIRACClientID''"

text \<open>\<^verbatim>\<open>KNOWN_CLIENTS[client_id]["allowed_redirects"]\<close>, as a map to the list.\<close>

definition KNOWN_CLIENTS :: "string \<rightharpoonup> string list" where
  "KNOWN_CLIENTS = [DIRAC_CLIENT_ID \<mapsto> [''http://localhost:8000/docs/oauth2-redirect'']]"

definition SID_TO_USERNAME :: "string \<rightharpoonup> string" where
  "SID_TO_USERNAME =
     [''b824d4dc-1f9d-4ee8-8df5-c0ae55d46041'' \<mapsto> ''chaen'',
      ''59382c3f-181c-4df8-981d-ec3e9015fcb9'' \<mapsto> ''cburr'']"

definition DEVICE_FLOW_EXPIRATION_SECONDS :: nat where
  "DEVICE_FLOW_EXPIRATION_SECONDS = 600"

definition AUTHORIZATION_FLOW_EXPIRATION_SECONDS :: nat where
  "AUTHORIZATION_FLOW_EXPIRATION_SECONDS = 300"

section \<open>What the module takes from outside\<close>

text \<open>What \<^verbatim>\<open>json.loads\<close> can return.\<close>

datatype json =
    JNull
  | JBool bool
  | JNumber string
  | JString string
  | JArray "json list"
  | JObject "(string \<times> json) list"

text \<open>
  The clock, the random sources, the signing secrets, the standard library's SHA-256,
  JSON and date functions, the metadata of the identity provider, the iteration order
  of a Python set and the members of the enum \<^verbatim>\<open>SecurityProperty\<close> are not
  computed by the files at hand. They are the fields of one record that every function
  takes as its first argument.
  \<^item> \<open>utcnow\<close>: the reading of \<^verbatim>\<open>datetime.utcnow()\<close>, in seconds;
  \<^item> \<open>uuid4\<close>: the value of \<^verbatim>\<open>str(uuid4())\<close>;
  \<^item> \<open>token_algorithm\<close>, \<open>token_key\<close>: \<^verbatim>\<open>get_secrets()\<close>;
  \<^item> \<open>token_hex\<close>: the value of \<^verbatim>\<open>secrets.token_hex()\<close>;
  \<^item> \<open>sha256\<close>: \<^verbatim>\<open>hashlib.sha256(b).digest()\<close>;
  \<^item> \<open>json_dumps\<close>: \<^verbatim>\<open>json.dumps\<close> of a dict of strings, given as its items
    in insertion order; \<open>json_loads\<close>: \<^verbatim>\<open>json.loads\<close>, \<open>None\<close> when it raises;
  \<^item> \<open>authorization_endpoint\<close>: \<^verbatim>\<open>client.server_metadata["authorization_endpoint"]\<close>
    of the client registered for a VO, or what loading the metadata raises;
  \<^item> \<open>strftime\<close>: \<^verbatim>\<open>t.strftime(LAST_MODIFIED_FORMAT)\<close>;
    \<open>strptime\<close>: \<^verbatim>\<open>datetime.strptime(s, LAST_MODIFIED_FORMAT)\<close>, the date and time
    of day that the string spells, \<open>None\<close> when it raises ValueError;
  \<^item> \<open>astimezone_utc\<close>: \<^verbatim>\<open>naive.astimezone(timezone.utc)\<close> of a naive
    datetime, which the call reads as a time in the system's local time zone: the time
    in UTC, or what the call raises near the ends of the range of
    \<^verbatim>\<open>datetime\<close> (a ValueError for a year out of range, or an OverflowError);
  \<^item> \<open>set_iter\<close>: the order in which a \<^verbatim>\<open>for\<close> loop visits
    \<^verbatim>\<open>set(xs)\<close>, given the list \<open>xs\<close> the set was built from;
  \<^item> \<open>SecurityProperty\<close>: the values of the enum's members.
\<close>

record runtime =
  utcnow :: int
  uuid4 :: string
  token_algorithm :: string
  token_key :: string
  token_hex :: string
  sha256 :: "string \<Rightarrow> string"
  json_dumps :: "(string \<times> string) list \<Rightarrow> string"
  json_loads :: "string \<Rightarrow> json option"
  authorization_endpoint :: "string \<Rightarrow> error + string"
  strftime :: "int \<Rightarrow> string"
  strptime :: "string \<Rightarrow> int option"
  astimezone_utc :: "int \<Rightarrow> error + int"
  set_iter :: "string list \<Rightarrow> string list"
  SecurityProperty :: "string list"

text \<open>
  A \<^verbatim>\<open>set\<close> holds each element once, and a loop over it visits each element
  once, in an order that the language leaves open.
\<close>

definition set_iter_ok :: "runtime \<Rightarrow> bool" where
  "set_iter_ok R = (\<forall>xs. distinct (set_iter R xs) \<and> set (set_iter R xs) = set xs)"

section \<open>Token issuance\<close>

text \<open>
  A value of the payload dict. \<^verbatim>\<open>jwt.encode(header, payload, key)\<close> of authlib is
  kept as the triple of its arguments: the compact serialisation is the library's.
  \<open>jws_claims\<close> reads the claims of a token as a map.
\<close>

datatype claim = Str string | StrList "string list" | Datetime int

datatype jws = JWS "(string \<times> string) list" "(string \<times> claim) list" string

fun jws_claims :: "jws \<Rightarrow> (string \<rightharpoonup> claim)" where
  "jws_claims (JWS header payload key) = map_of payload"

record TokenResponse =
  access_token :: jws
  expires_in :: int
  state :: string

text \<open>
  \<^verbatim>\<open>create_access_token(payload, expires_delta=None)\<close>. A
  \<^verbatim>\<open>timedelta\<close> is a number of seconds, and is falsy when it is zero. The
  function copies the payload to \<^verbatim>\<open>to_encode\<close>, adds \<^verbatim>\<open>exp\<close> to the
  copy, and then passes \<^verbatim>\<open>payload\<close> to \<^verbatim>\<open>jwt.encode\<close>.
\<close>

definition create_access_token ::
    "runtime \<Rightarrow> (string \<times> claim) list \<Rightarrow> int option \<Rightarrow> jws" where
  "create_access_token R payload expires_delta =
     (let to_encode = payload;
          expire = (case expires_delta of
                      Some d \<Rightarrow> if d \<noteq> 0 then utcnow R + d
                                else utcnow R + 60 * ACCESS_TOKEN_EXPIRE_MINUTES
                    | None \<Rightarrow> utcnow R + 60 * ACCESS_TOKEN_EXPIRE_MINUTES);
          to_encode = dict_set to_encode ''exp'' (Datetime expire)
      in JWS [(''alg'', token_algorithm R)] payload (token_key R))"

text \<open>
  \<^verbatim>\<open>exchange_token(dirac_group, id_token, config)\<close>. Every subscript is a
  lookup that can raise KeyError, in the order of the source; the f-string of the
  ValueError reads \<^verbatim>\<open>id_token['preferred_username']\<close> too.
\<close>

definition exchange_token ::
    "runtime \<Rightarrow> string \<Rightarrow> (string \<rightharpoonup> string) \<Rightarrow> config \<Rightarrow> error + TokenResponse" where
  "exchange_token R dirac_group id_token config =
     then_do (getitem id_token ''organisation_name'') (\<lambda>vo.
     then_do (getitem id_token ''sub'') (\<lambda>sub.
     then_do (getitem SID_TO_USERNAME sub) (\<lambda>subId.
     then_do (getitem (Groups (Registry config)) vo) (\<lambda>vo_groups.
     then_do (getitem vo_groups dirac_group) (\<lambda>g.
       if subId \<notin> set (Users g) then
         then_do (getitem id_token ''preferred_username'') (\<lambda>name.
           Inl (ValueError (Not_a_member name dirac_group)))
       else
         then_do (getitem id_token ''preferred_username'') (\<lambda>name.
           let payload =
             [(''sub'', Str (vo @ '':'' @ subId)),
              (''vo'', Str vo),
              (''aud'', Str AUDIENCE),
              (''iss'', Str ISSUER),
              (''dirac_properties'', StrList (Properties g)),
              (''jti'', Str (uuid4 R)),
              (''preferred_username'', Str name),
              (''dirac_group'', Str dirac_group)]
           in Inr \<lparr>access_token = create_access_token R payload None,
                   expires_in = ACCESS_TOKEN_EXPIRE_MINUTES * 60,
                   state = ''None''\<rparr>))))))"

section \<open>Strings and base64\<close>

text \<open>\<^verbatim>\<open>s.split(" ")\<close>: one piece more than there are separators.\<close>

fun split_on :: "char \<Rightarrow> string \<Rightarrow> string list" where
  "split_on c [] = [[]]"
| "split_on c (x # xs) =
     (if x = c then [] # split_on c xs
      else (case split_on c xs of
              [] \<Rightarrow> [[x]]
            | w # ws \<Rightarrow> (x # w) # ws))"

definition startswith :: "string \<Rightarrow> string \<Rightarrow> bool" where
  "startswith s p = (take (length p) s = p)"

text \<open>\<^verbatim>\<open>s.split(":", 1)[1]\<close>, for an \<open>s\<close> that holds a colon.\<close>

definition after_colon :: "string \<Rightarrow> string" where
  "after_colon s = drop 1 (dropWhile (\<lambda>x. x \<noteq> CHR '':'') s)"

text \<open>\<^verbatim>\<open>s.strip(chars)\<close> and \<^verbatim>\<open>s.replace(c, "")\<close> for a one-character \<open>c\<close>.\<close>

definition strip :: "string \<Rightarrow> string \<Rightarrow> string" where
  "strip chars s =
     rev (dropWhile (\<lambda>x. x \<in> set chars) (rev (dropWhile (\<lambda>x. x \<in> set chars) s)))"

definition replace_by_nothing :: "char \<Rightarrow> string \<Rightarrow> string" where
  "replace_by_nothing c s = filter (\<lambda>x. x \<noteq> c) s"

text \<open>
  \<^verbatim>\<open>base64.urlsafe_b64encode\<close>: three bytes give four characters of the
  URL-safe alphabet, and a last group of one or two bytes is padded with \<open>=\<close>.
  A byte is a \<open>char\<close>, read as a number below 256 by \<open>of_char\<close>.
\<close>

definition urlsafe_alphabet :: string where
  "urlsafe_alphabet = ''ABCDEFGHIJKLMNOPQRSTUVWXYZabcdefghijklmnopqrstuvwxyz0123456789-_''"

definition b64char :: "nat \<Rightarrow> char" where
  "b64char n = urlsafe_alphabet ! n"

fun urlsafe_b64encode :: "string \<Rightarrow> string" where
  "urlsafe_b64encode [] = []"
| "urlsafe_b64encode [a] =
     [b64char (of_char a div 4), b64char ((of_char a mod 4) * 16), CHR ''='', CHR ''='']"
| "urlsafe_b64encode [a, b] =
     [b64char (of_char a div 4),
      b64char ((of_char a mod 4) * 16 + of_char b div 16),
      b64char ((of_char b mod 16) * 4), CHR ''='']"
| "urlsafe_b64encode (a # b # c # rest) =
     [b64char (of_char a div 4),
      b64char ((of_char a mod 4) * 16 + of_char b div 16),
      b64char ((of_char b mod 16) * 4 + of_char c div 64),
      b64char (of_char c mod 64)] @ urlsafe_b64encode rest"

text \<open>
  The S256 challenge of a verifier, as \<^verbatim>\<open>token\<close> computes it
  (\<^verbatim>\<open>.strip("=")\<close>) and as \<^verbatim>\<open>initiate_authorization_flow_with_iam\<close>
  computes it (\<^verbatim>\<open>.replace("=", "")\<close>).
\<close>

definition token_code_challenge :: "runtime \<Rightarrow> string \<Rightarrow> string" where
  "token_code_challenge R code_verifier =
     strip ''='' (urlsafe_b64encode (sha256 R code_verifier))"

definition iam_code_challenge :: "runtime \<Rightarrow> string \<Rightarrow> string" where
  "iam_code_challenge R code_verifier =
     replace_by_nothing CHR ''='' (urlsafe_b64encode (sha256 R code_verifier))"

section \<open>Scope validation\<close>

record ScopeInfoDict =
  group :: string
  properties :: "string list"

text \<open>
  The loop of \<^verbatim>\<open>parse_and_validate_scope\<close> over the tokens, in the order
  in which they are visited: each token is appended to one of three lists.
\<close>

fun classify :: "string list \<Rightarrow> string list \<times> string list \<times> string list" where
  "classify [] = ([], [], [])"
| "classify (s # rest) =
     (case classify rest of (groups, props, unrecognised) \<Rightarrow>
        if startswith s ''group:'' then (after_colon s # groups, props, unrecognised)
        else if startswith s ''property:'' then (groups, after_colon s # props, unrecognised)
        else (groups, props, s # unrecognised))"

text \<open>
  \<^verbatim>\<open>parse_and_validate_scope(scope, vo, config)\<close>. The tokens go through
  \<^verbatim>\<open>set(...)\<close> before the loop.
\<close>

definition parse_and_validate_scope ::
    "runtime \<Rightarrow> string \<Rightarrow> string \<Rightarrow> config \<Rightarrow> error + ScopeInfoDict" where
  "parse_and_validate_scope R scope vo config =
     (let scopes = set_iter R (split_on CHR '' '' scope) in
      case classify scopes of (groups, props, unrecognised) \<Rightarrow>
        if unrecognised \<noteq> [] then Inl (ValueError (Unrecognised_scopes unrecognised))
        else
          then_do
            (case groups of
               [] \<Rightarrow> then_do (getitem (DefaultGroup (Registry config)) vo) first_item
             | g # others \<Rightarrow>
                 if others \<noteq> [] then Inl (ValueError (Only_one_group groups))
                 else then_do (getitem (Groups (Registry config)) vo) (\<lambda>vo_groups.
                        if vo_groups g = None then Inl (ValueError (Group_not_in_vo g vo))
                        else Inr g))
            (\<lambda>grp.
               if \<not> set props \<subseteq> set (SecurityProperty R) then
                 Inl (ValueError (Not_valid_properties (set props - set (SecurityProperty R))))
               else Inr \<lparr>group = grp, properties = props\<rparr>))"

text \<open>
  What the specification says of the result's \<^verbatim>\<open>properties\<close>, in its own
  words: the list of the \<^verbatim>\<open>property:<name>\<close> tokens as requested, order
  preserved, duplicates kept. This definition follows the specification, not the code.
\<close>

definition requested_properties :: "string \<Rightarrow> string list" where
  "requested_properties scope =
     map after_colon (filter (\<lambda>t. startswith t ''property:'') (split_on CHR '' '' scope))"

section \<open>The token endpoint\<close>

text \<open>
  The dict that \<^verbatim>\<open>auth_db.get_device_flow\<close> and
  \<^verbatim>\<open>auth_db.get_authorization_flow\<close> return, with the keys that
  \<^verbatim>\<open>token\<close> reads. \<^verbatim>\<open>AuthDB\<close> itself is not among the files at
  hand: each of its methods is a function from the arguments of the call to what the
  call returns or raises in the store as it is when the request arrives.
\<close>

record flow_info =
  info_client_id :: string
  info_scope :: string
  info_status :: FlowStatus
  info_id_token :: "string \<rightharpoonup> string"
  info_redirect_uri :: string
  info_code_challenge :: string

record AuthDB =
  insert_device_flow :: "string \<Rightarrow> string \<Rightarrow> string \<Rightarrow> error + string \<times> string"
  get_device_flow :: "string \<Rightarrow> nat \<Rightarrow> error + flow_info"
  insert_authorization_flow ::
    "string \<Rightarrow> string \<Rightarrow> string \<Rightarrow> string \<Rightarrow> string \<Rightarrow> string \<Rightarrow> error + string"
  get_authorization_flow :: "string \<Rightarrow> nat \<Rightarrow> error + flow_info"

definition HTTP_400_BAD_REQUEST :: nat where
  "HTTP_400_BAD_REQUEST = 400"

definition device_code_grant :: string where
  "device_code_grant = ''urn:ietf:params:oauth:grant-type:device_code''"

text \<open>
  \<^verbatim>\<open>token(vo, grant_type, client_id, auth_db, config, device_code, code,
  redirect_uri, code_verifier)\<close>. The two branches bind \<^verbatim>\<open>info\<close> or raise;
  the status check, the scope validation and the exchange follow for both.
\<close>

definition token ::
    "runtime \<Rightarrow> string \<Rightarrow> string \<Rightarrow> string \<Rightarrow> AuthDB \<Rightarrow> config \<Rightarrow>
     string option \<Rightarrow> string option \<Rightarrow> string option \<Rightarrow> string option \<Rightarrow>
     error + TokenResponse" where
  "token R vo grant_type client_id auth_db config device_code code redirect_uri code_verifier =
     then_do
       (if grant_type = device_code_grant then
          (case device_code of
             None \<Rightarrow> Inl AssertionError
           | Some dc \<Rightarrow>
               (case get_device_flow auth_db dc DEVICE_FLOW_EXPIRATION_SECONDS of
                  Inl PendingAuthorizationError \<Rightarrow>
                    Inl (DiracHttpResponse HTTP_400_BAD_REQUEST
                           [(''error'', ''authorization_pending'')])
                | Inl ExpiredFlowError \<Rightarrow>
                    Inl (DiracHttpResponse HTTP_400_BAD_REQUEST [(''error'', ''expired_token'')])
                | Inl e \<Rightarrow> Inl e
                | Inr info \<Rightarrow>
                    if info_client_id info \<noteq> client_id then
                      Inl (HTTPException HTTP_400_BAD_REQUEST Bad_client_id [])
                    else Inr info))
        else if grant_type = ''authorization_code'' then
          (case code of
             None \<Rightarrow> Inl AssertionError
           | Some c \<Rightarrow>
               then_do (get_authorization_flow auth_db c AUTHORIZATION_FLOW_EXPIRATION_SECONDS)
                 (\<lambda>info.
                    if redirect_uri \<noteq> Some (info_redirect_uri info) then
                      Inl (HTTPException HTTP_400_BAD_REQUEST Invalid_redirect_uri [])
                    else
                      (case code_verifier of
                         None \<Rightarrow>
                           Inl (HTTPException HTTP_400_BAD_REQUEST Malformed_code_verifier [])
                       | Some verifier \<Rightarrow>
                           let code_challenge = token_code_challenge R verifier
                           in if code_challenge \<noteq> info_code_challenge info then
                                Inl (HTTPException HTTP_400_BAD_REQUEST Invalid_code_challenge [])
                              else Inr info)))
        else Inl (NotImplementedError (Grant_type_not_implemented grant_type)))
       (\<lambda>info.
          if info_status info \<noteq> READY then
            Inl (NotImplementedError (Unexpected_flow_status (info_status info)))
          else
            then_do (parse_and_validate_scope R (info_scope info) vo config) (\<lambda>parsed_scope.
              exchange_token R (group parsed_scope) (info_id_token info) config))"

section \<open>The state sent through the identity provider\<close>

text \<open>
  \<^verbatim>\<open>base64.urlsafe_b64decode\<close> of a \<^verbatim>\<open>str\<close>: the string must be ASCII,
  \<open>-\<close> and \<open>_\<close> are translated to \<open>+\<close> and \<open>/\<close>, and
  \<^verbatim>\<open>binascii.a2b_base64\<close> runs without strict mode: a character outside the
  alphabet is skipped, a pad sequence that completes a quad ends the input, and an
  incomplete quad at the end is an error. The state of the loop is the position in the
  quad, the bits left over, the pads seen, and the bytes written.
\<close>

definition b64_alphabet :: string where
  "b64_alphabet = ''ABCDEFGHIJKLMNOPQRSTUVWXYZabcdefghijklmnopqrstuvwxyz0123456789+/''"

definition urlsafe_decode_translation :: "char \<Rightarrow> char" where
  "urlsafe_decode_translation c =
     (if c = CHR ''-'' then CHR ''+'' else if c = CHR ''_'' then CHR ''/'' else c)"

fun index_of :: "'a \<Rightarrow> 'a list \<Rightarrow> nat option" where
  "index_of x [] = None"
| "index_of x (y # ys) =
     (if x = y then Some 0 else map_option Suc (index_of x ys))"

definition table_a2b_base64 :: "char \<Rightarrow> nat option" where
  "table_a2b_base64 c = index_of c b64_alphabet"

fun a2b_base64 :: "string \<Rightarrow> nat \<Rightarrow> nat \<Rightarrow> nat \<Rightarrow> string \<Rightarrow> string option" where
  "a2b_base64 [] quad_pos leftchar pads out = (if quad_pos \<noteq> 0 then None else Some out)"
| "a2b_base64 (this_ch # rest) quad_pos leftchar pads out =
     (if this_ch = CHR ''='' then
        (if 2 \<le> quad_pos \<and> 4 \<le> quad_pos + (pads + 1) then Some out
         else a2b_base64 rest quad_pos leftchar (if 2 \<le> quad_pos then pads + 1 else pads) out)
      else
        (case table_a2b_base64 this_ch of
           None \<Rightarrow> a2b_base64 rest quad_pos leftchar pads out
         | Some v \<Rightarrow>
             if quad_pos = 0 then a2b_base64 rest 1 v 0 out
             else if quad_pos = 1 then
               a2b_base64 rest 2 (v mod 16) 0 (out @ [char_of (leftchar * 4 + v div 16)])
             else if quad_pos = 2 then
               a2b_base64 rest 3 (v mod 4) 0 (out @ [char_of (leftchar * 16 + v div 4)])
             else a2b_base64 rest 0 0 0 (out @ [char_of (leftchar * 64 + v)])))"

definition is_ascii :: "string \<Rightarrow> bool" where
  "is_ascii s = list_all (\<lambda>c. of_char c < (128::nat)) s"

definition urlsafe_b64decode :: "string \<Rightarrow> string option" where
  "urlsafe_b64decode s =
     (if \<not> is_ascii s then None
      else a2b_base64 (map urlsafe_decode_translation s) 0 0 0 [])"

text \<open>
  \<^verbatim>\<open>bytes.decode()\<close>: a Python string is kept as its UTF-8 bytes, so decoding
  is the check that the bytes are well-formed UTF-8.
\<close>

definition cont :: "nat \<Rightarrow> bool" where
  "cont b = (128 \<le> b \<and> b \<le> 191)"

fun utf8_ok :: "nat list \<Rightarrow> bool" where
  "utf8_ok [] = True"
| "utf8_ok (b0 # bs) =
     (if b0 < 128 then utf8_ok bs
      else if 194 \<le> b0 \<and> b0 \<le> 223 then
        (case bs of b1 # rest \<Rightarrow> cont b1 \<and> utf8_ok rest | _ \<Rightarrow> False)
      else if 224 \<le> b0 \<and> b0 \<le> 239 then
        (case bs of
           b1 # b2 # rest \<Rightarrow>
             cont b1 \<and> cont b2 \<and> (if b0 = 224 then 160 \<le> b1 else True)
             \<and> (if b0 = 237 then b1 \<le> 159 else True) \<and> utf8_ok rest
         | _ \<Rightarrow> False)
      else if 240 \<le> b0 \<and> b0 \<le> 244 then
        (case bs of
           b1 # b2 # b3 # rest \<Rightarrow>
             cont b1 \<and> cont b2 \<and> cont b3 \<and> (if b0 = 240 then 144 \<le> b1 else True)
             \<and> (if b0 = 244 then b1 \<le> 143 else True) \<and> utf8_ok rest
         | _ \<Rightarrow> False)
      else False)"

definition decode_utf8 :: "string \<Rightarrow> string option" where
  "decode_utf8 b = (if utf8_ok (map of_char b) then Some b else None)"

text \<open>
  The value of \<^verbatim>\<open>encrypted_state\<close> in
  \<^verbatim>\<open>initiate_authorization_flow_with_iam\<close>, and \<^verbatim>\<open>decrypt_state\<close>, which
  turns every exception into an HTTPException.
\<close>

definition encrypted_state :: "runtime \<Rightarrow> (string \<times> string) list \<Rightarrow> string \<Rightarrow> string" where
  "encrypted_state R st code_verifier =
     urlsafe_b64encode (json_dumps R (dict_set st ''code_verifier'' code_verifier))"

definition decrypt_state :: "runtime \<Rightarrow> string \<Rightarrow> error + json" where
  "decrypt_state R st =
     (case urlsafe_b64decode st of
        None \<Rightarrow> Inl (HTTPException HTTP_400_BAD_REQUEST Invalid_state [])
      | Some raw \<Rightarrow>
          (case decode_utf8 raw of
             None \<Rightarrow> Inl (HTTPException HTTP_400_BAD_REQUEST Invalid_state [])
           | Some text \<Rightarrow>
               (case json_loads R text of
                  None \<Rightarrow> Inl (HTTPException HTTP_400_BAD_REQUEST Invalid_state [])
                | Some v \<Rightarrow> Inr v)))"

section \<open>Starting a flow\<close>

type_synonym url = string

type_synonym client = string

definition lhcb_iam_client_id :: string where
  "lhcb_iam_client_id = ''d396912e-2f04-439b-8ae7-d8c585a34790''"

fun join :: "string \<Rightarrow> string list \<Rightarrow> string" where
  "join sep [] = []"
| "join sep [x] = x"
| "join sep (x # y # ys) = x @ sep @ join sep (y # ys)"

definition initiate_authorization_flow_with_iam ::
    "runtime \<Rightarrow> string \<Rightarrow> url \<Rightarrow> (string \<times> string) list \<Rightarrow> error + url" where
  "initiate_authorization_flow_with_iam R vo redirect_uri st =
     (let code_verifier = token_hex R;
          code_challenge = iam_code_challenge R code_verifier
      in then_do (authorization_endpoint R vo) (\<lambda>endpoint.
           let urlParams =
                 [''response_type=code'',
                  ''code_challenge='' @ code_challenge,
                  ''code_challenge_method=S256'',
                  ''client_id='' @ lhcb_iam_client_id,
                  ''redirect_uri='' @ redirect_uri,
                  ''scope=openid%20profile'',
                  ''state='' @ encrypted_state R st code_verifier]
           in Inr (endpoint @ ''?'' @ join ''&'' urlParams)))"

record InitiateDeviceFlowResponse =
  flow_user_code :: string
  flow_device_code :: string
  flow_verification_uri_complete :: string
  flow_verification_uri :: string
  flow_expires_in :: nat

text \<open>
  \<^verbatim>\<open>initiate_device_flow\<close>; \<open>url\<close> is the URL of the request without its
  query. Only a ValueError of the scope validation is turned into an HTTPException.
\<close>

definition initiate_device_flow ::
    "runtime \<Rightarrow> string \<Rightarrow> client \<Rightarrow> string \<Rightarrow> string \<Rightarrow> url \<Rightarrow> AuthDB \<Rightarrow> config \<Rightarrow>
     error + InitiateDeviceFlowResponse" where
  "initiate_device_flow R vo client_id scope audience url auth_db config =
     (if KNOWN_CLIENTS client_id = None then Inl AssertionError
      else
        (case parse_and_validate_scope R scope vo config of
           Inl (ValueError m) \<Rightarrow> Inl (HTTPException HTTP_400_BAD_REQUEST m [])
         | Inl e \<Rightarrow> Inl e
         | Inr parsed \<Rightarrow>
             then_do (insert_device_flow auth_db client_id scope audience)
               (\<lambda>(user_code, device_code).
                  let verification_uri = url
                  in Inr \<lparr>flow_user_code = user_code,
                          flow_device_code = device_code,
                          flow_verification_uri_complete =
                            verification_uri @ ''?user_code='' @ user_code,
                          flow_verification_uri = url,
                          flow_expires_in = DEVICE_FLOW_EXPIRATION_SECONDS\<rparr>)))"

text \<open>
  \<^verbatim>\<open>authorization_flow\<close>; the result is the URL of the redirect response.
\<close>

definition authorization_flow ::
    "runtime \<Rightarrow> string \<Rightarrow> url \<Rightarrow> string \<Rightarrow> string \<Rightarrow> string \<Rightarrow> client \<Rightarrow> url \<Rightarrow>
     string \<Rightarrow> string \<Rightarrow> AuthDB \<Rightarrow> config \<Rightarrow> error + url" where
  "authorization_flow R vo url response_type code_challenge code_challenge_method client_id
       redirect_uri scope st auth_db config =
     (case KNOWN_CLIENTS client_id of
        None \<Rightarrow> Inl AssertionError
      | Some allowed_redirects \<Rightarrow>
          if redirect_uri \<notin> set allowed_redirects then Inl AssertionError
          else
            (case parse_and_validate_scope R scope vo config of
               Inl (ValueError m) \<Rightarrow> Inl (HTTPException HTTP_400_BAD_REQUEST m [])
             | Inl e \<Rightarrow> Inl e
             | Inr parsed \<Rightarrow>
                 then_do (insert_authorization_flow auth_db client_id scope ''audience''
                            code_challenge code_challenge_method redirect_uri)
                   (\<lambda>uuid.
                      let state_for_iam =
                            [(''external_state'', st), (''uuid'', uuid),
                             (''grant_type'', ''authorization_code'')]
                      in initiate_authorization_flow_with_iam R vo (url @ ''/complete'')
                           state_for_iam)))"

text \<open>
  The status that an exception gives the response by itself: an HTTPException and a
  DiracHttpResponse carry one, any other exception leaves the endpoint without one.
\<close>

fun http_status :: "error \<Rightarrow> nat option" where
  "http_status (HTTPException status_code detail headers) = Some status_code"
| "http_status (DiracHttpResponse status_code data) = Some status_code"
| "http_status e = None"

section \<open>Serving the configuration\<close>

definition HTTP_304_NOT_MODIFIED :: nat where
  "HTTP_304_NOT_MODIFIED = 304"

text \<open>
  \<^verbatim>\<open>serve_config(vo, config, response, if_none_match, if_modified_since)\<close>. The
  result is the config with the headers written to the response, or the HTTPException.
  \<^verbatim>\<open>strptime\<close> gives a naive datetime, which \<^verbatim>\<open>astimezone(timezone.utc)\<close>
  takes as local time. Both calls stand in the \<^verbatim>\<open>try\<close> block, whose
  \<^verbatim>\<open>except\<close> clause catches ValueError only.
\<close>

definition serve_config ::
    "runtime \<Rightarrow> string \<Rightarrow> config \<Rightarrow> string option \<Rightarrow> string option \<Rightarrow>
     error + config \<times> (string \<times> string) list" where
  "serve_config R vo config if_none_match if_modified_since =
     (let headers = [(''ETag'', hexsha config),
                     (''Last-Modified'', strftime R (modified config))]
      in if if_none_match = Some (hexsha config) then
           Inl (HTTPException HTTP_304_NOT_MODIFIED No_detail headers)
         else
           (case if_modified_since of
              None \<Rightarrow> Inr (config, headers)
            | Some ims \<Rightarrow>
                if ims = [] then Inr (config, headers)
                else
                  (case strptime R ims of
                     None \<Rightarrow> Inr (config, headers)
                   | Some naive \<Rightarrow>
                       (case astimezone_utc R naive of
                          Inl (ValueError m) \<Rightarrow> Inr (config, headers)
                        | Inl e \<Rightarrow> Inl e
                        | Inr not_before \<Rightarrow>
                            if not_before > modified config then
                              Inl (HTTPException HTTP_304_NOT_MODIFIED No_detail headers)
                            else Inr (config, headers)))))"

section \<open>Example values\<close>

text \<open>
  The values at which the theorems below are evaluated: the first scenario of the
  specification (VO \<open>lhcb\<close>, group \<open>lhcb_user\<close>, user \<open>chaen\<close>). The functions of
  the standard library are given by their values at the arguments that the examples
  use: the SHA-256 digest of \<open>abc\<close>, and the JSON text of one state dict. The local
  time of the example server is one hour ahead of UTC.
\<close>

definition abc_digest :: string where
  "abc_digest =
     map char_of
       [186, 120, 22, 191, 143, 1, 207, 234, 65, 65, 64, 222, 93, 174, 34, 35,
        176, 3, 97, 163, 150, 23, 122, 156, 180, 16, 255, 97, 242, 0, 21, 173 :: nat]"

definition quoted :: "string \<Rightarrow> string" where
  "quoted s = CHR 0x22 # s @ [CHR 0x22]"

definition example_state_text :: string where
  "example_state_text =
     ''{'' @ quoted ''user_code'' @ '': '' @ quoted ''ABCD'' @ '', '' @
     quoted ''code_verifier'' @ '': '' @ quoted ''abc'' @ ''}''"

definition example_state_json :: json where
  "example_state_json =
     JObject [(''user_code'', JString ''ABCD''), (''code_verifier'', JString ''abc'')]"

definition example_runtime :: runtime where
  "example_runtime =
     \<lparr>utcnow = 1704067200,
      uuid4 = ''6e8bc430-9c3a-11d9-9669-0800200c9a66'',
      token_algorithm = ''EdDSA'',
      token_key = ''key'',
      token_hex = ''abc'',
      sha256 = (\<lambda>b. if b = ''abc'' then abc_digest else replicate 32 (CHR 0x00)),
      json_dumps = (\<lambda>d. if d = [(''user_code'', ''ABCD''), (''code_verifier'', ''abc'')]
                          then example_state_text else ''{}''),
      json_loads = (\<lambda>t. if t = example_state_text then Some example_state_json else None),
      authorization_endpoint = (\<lambda>vo. Inr ''https://lhcb-auth.web.cern.ch/authorize''),
      strftime = (\<lambda>t. ''Mon, 01 Jan 2024 00:00:00 GMT''),
      strptime = (\<lambda>s. if s = ''Mon, 01 Jan 2024 00:30:00 GMT'' then Some 1704069000
                        else None),
      astimezone_utc = (\<lambda>t. Inr (t - 3600)),
      set_iter = remdups,
      SecurityProperty = [''NormalUser'']\<rparr>"

definition example_config :: config where
  "example_config =
     \<lparr>Registry =
        \<lparr>DefaultGroup = [''lhcb'' \<mapsto> [''lhcb_user'']],
         Groups = [''lhcb'' \<mapsto>
                     [''lhcb_user'' \<mapsto> \<lparr>Users = [''chaen'', ''cburr''],
                                        Properties = [''NormalUser'']\<rparr>]]\<rparr>,
      hexsha = ''3b18e512dba79e4c8300dd08aeb37f8e728b8dad'',
      modified = 1704067200\<rparr>"

text \<open>The same configuration with a default group that \<open>lhcb\<close> does not have.\<close>

definition example_config_ghost :: config where
  "example_config_ghost =
     example_config\<lparr>Registry := (Registry example_config)
                                    \<lparr>DefaultGroup := [''lhcb'' \<mapsto> [''ghost'']]\<rparr>\<rparr>"

definition example_id_token :: "string \<rightharpoonup> string" where
  "example_id_token =
     [''sub'' \<mapsto> ''b824d4dc-1f9d-4ee8-8df5-c0ae55d46041'',
      ''organisation_name'' \<mapsto> ''lhcb'',
      ''preferred_username'' \<mapsto> ''chaen'']"

definition example_row :: flow_info where
  "example_row =
     \<lparr>info_client_id = DIRAC_CLIENT_ID,
      info_scope = ''group:lhcb_user property:NormalUser'',
      info_status = READY,
      info_id_token = example_id_token,
      info_redirect_uri = ''http://localhost:8000/docs/oauth2-redirect'',
      info_code_challenge = ''ungWv48Bz-pBQUDeXa4iI7ADYaOWF3qctBD_YfIAFa0''\<rparr>"

text \<open>A store whose lookups all give \<open>found\<close>.\<close>

definition example_db :: "(error + flow_info) \<Rightarrow> AuthDB" where
  "example_db found =
     \<lparr>insert_device_flow = (\<lambda>client_id scope audience. Inr (''ABCD'', ''device-code'')),
      get_device_flow = (\<lambda>device_code max_validity. found),
      insert_authorization_flow =
        (\<lambda>client_id scope audience code_challenge code_challenge_method redirect_uri.
           Inr ''uuid''),
      get_authorization_flow = (\<lambda>code max_validity. found)\<rparr>"

text \<open>The response of the first scenario.\<close>

definition example_response :: TokenResponse where
  "example_response =
     \<lparr>access_token =
        JWS [(''alg'', ''EdDSA'')]
          [(''sub'', Str ''lhcb:chaen''),
           (''vo'', Str ''lhcb''),
           (''aud'', Str ''dirac''),
           (''iss'', Str ''http://lhcbdirac.cern.ch/''),
           (''dirac_properties'', StrList [''NormalUser'']),
           (''jti'', Str ''6e8bc430-9c3a-11d9-9669-0800200c9a66''),
           (''preferred_username'', Str ''chaen''),
           (''dirac_group'', Str ''lhcb_user'')]
          ''key'',
      expires_in = 180000,
      state = ''None''\<rparr>"

section \<open>Facts about base64\<close>

lemma of_char_below_256: "of_char (c::char) < (256::nat)"
  by (metis mod_less_divisor zero_less_numeral of_char_mod_256)

lemma sextet_1: "of_char (a::char) div 4 < (64::nat)"
  using of_char_below_256[of a] by (intro less_mult_imp_div_less) simp

lemma sextet_2_pad: "(of_char (a::char) mod 4) * 16 < (64::nat)"
proof -
  have "of_char a mod 4 < (4::nat)" by simp
  then show ?thesis by linarith
qed

lemma sextet_2: "(of_char (a::char) mod 4) * 16 + of_char (b::char) div 16 < (64::nat)"
proof -
  have "of_char a mod 4 < (4::nat)" by simp
  moreover have "of_char b div 16 < (16::nat)"
    using of_char_below_256[of b] by (intro less_mult_imp_div_less) simp
  ultimately show ?thesis by linarith
qed

lemma sextet_3_pad: "(of_char (b::char) mod 16) * 4 < (64::nat)"
proof -
  have "of_char b mod 16 < (16::nat)" by simp
  then show ?thesis by linarith
qed

lemma sextet_3: "(of_char (b::char) mod 16) * 4 + of_char (c::char) div 64 < (64::nat)"
proof -
  have "of_char b mod 16 < (16::nat)" by simp
  moreover have "of_char c div 64 < (4::nat)"
    using of_char_below_256[of c] by (intro less_mult_imp_div_less) simp
  ultimately show ?thesis by linarith
qed

lemma sextet_4: "of_char (c::char) mod 64 < (64::nat)"
  by simp

lemmas sextets = sextet_1 sextet_2_pad sextet_2 sextet_3_pad sextet_3 sextet_4

lemma b64char_in_alphabet: "n < 64 \<Longrightarrow> b64char n \<in> set urlsafe_alphabet"
  unfolding b64char_def by (intro nth_mem) (simp add: urlsafe_alphabet_def)

lemma b64char_not_pad: "n < 64 \<Longrightarrow> b64char n \<noteq> CHR ''=''"
proof -
  assume "n < 64"
  then have "b64char n \<in> set urlsafe_alphabet" by (rule b64char_in_alphabet)
  moreover have "CHR ''='' \<notin> set urlsafe_alphabet" by (simp add: urlsafe_alphabet_def)
  ultimately show ?thesis by metis
qed

lemmas sextets_not_pad = sextets[THEN b64char_not_pad]

text \<open>The encoder writes characters of the alphabet and \<open>=\<close>, and \<open>=\<close> only at the end.\<close>

lemma encode_chars: "set (urlsafe_b64encode bs) \<subseteq> set urlsafe_alphabet \<union> {CHR ''=''}"
  by (induction bs rule: urlsafe_b64encode.induct) (simp_all add: b64char_in_alphabet sextets)

lemma encode_is_ascii: "is_ascii (urlsafe_b64encode bs)"
proof -
  have "list_all (\<lambda>c. of_char c < (128::nat)) (CHR ''='' # urlsafe_alphabet)"
    by code_simp
  then have "\<forall>c \<in> set urlsafe_alphabet \<union> {CHR ''=''}. of_char c < (128::nat)"
    by (simp add: list_all_iff)
  then show ?thesis
    unfolding is_ascii_def list_all_iff using encode_chars[of bs] by blast
qed

lemma encode_shape:
  "\<exists>body k. urlsafe_b64encode bs = body @ replicate k CHR ''='' \<and> CHR ''='' \<notin> set body
     \<and> (body = [] \<longrightarrow> k = 0)"
proof (induction bs rule: urlsafe_b64encode.induct)
  case 1
  show ?case by simp
next
  case (2 a)
  let ?q = "[b64char (of_char a div 4), b64char ((of_char a mod 4) * 16)]"
  have "urlsafe_b64encode [a] = ?q @ replicate 2 CHR ''=''"
    by (simp add: numeral_2_eq_2)
  moreover have "CHR ''='' \<notin> set ?q"
    using sextets_not_pad by (simp add: eq_commute)
  ultimately show ?case by blast
next
  case (3 a b)
  let ?q = "[b64char (of_char a div 4),
             b64char ((of_char a mod 4) * 16 + of_char b div 16),
             b64char ((of_char b mod 16) * 4)]"
  have "urlsafe_b64encode [a, b] = ?q @ replicate 1 CHR ''=''"
    by simp
  moreover have "CHR ''='' \<notin> set ?q"
    using sextets_not_pad by (simp add: eq_commute)
  ultimately show ?case by blast
next
  case (4 a b c rest)
  then obtain body k where tail:
      "urlsafe_b64encode rest = body @ replicate k CHR ''=''" "CHR ''='' \<notin> set body"
    by blast
  let ?q = "[b64char (of_char a div 4),
             b64char ((of_char a mod 4) * 16 + of_char b div 16),
             b64char ((of_char b mod 16) * 4 + of_char c div 64),
             b64char (of_char c mod 64)]"
  have "urlsafe_b64encode (a # b # c # rest) = (?q @ body) @ replicate k CHR ''=''"
    using tail by simp
  moreover have "CHR ''='' \<notin> set (?q @ body)"
    using sextets_not_pad tail(2) by (simp add: eq_commute)
  moreover have "?q @ body \<noteq> []" by simp
  ultimately show ?case by blast
qed

text \<open>On such a string, stripping \<open>=\<close> at both ends removes every \<open>=\<close>.\<close>

lemma strip_padding:
  assumes "c \<notin> set body" "body = [] \<longrightarrow> k = 0"
  shows "strip [c] (body @ replicate k c) = replace_by_nothing c (body @ replicate k c)"
proof -
  have kept: "filter (\<lambda>x. x \<noteq> c) (body @ replicate k c) = body"
    using assms(1) by (induction body) auto
  have lead: "dropWhile (\<lambda>x. x \<in> set [c]) (body @ replicate k c) = body @ replicate k c"
    using assms by (cases body) auto
  have trail: "dropWhile (\<lambda>x. x \<in> set [c]) (rev (body @ replicate k c)) = rev body"
  proof -
    have "dropWhile (\<lambda>x. x \<in> set [c]) (replicate k c @ rev body)
            = dropWhile (\<lambda>x. x \<in> set [c]) (rev body)"
      by (rule dropWhile_append2) simp
    also have "\<dots> = rev body"
      using assms(1) by (cases "rev body") auto
    finally show ?thesis by simp
  qed
  show ?thesis
    unfolding strip_def replace_by_nothing_def using kept lead trail by simp
qed

lemma strip_is_replace:
  "strip ''='' (urlsafe_b64encode bs) = replace_by_nothing CHR ''='' (urlsafe_b64encode bs)"
proof -
  obtain body k where
    "urlsafe_b64encode bs = body @ replicate k CHR ''=''" "CHR ''='' \<notin> set body"
    "body = [] \<longrightarrow> k = 0"
    using encode_shape[of bs] by blast
  then show ?thesis
    using strip_padding[of "CHR ''=''" body k] by simp
qed

text \<open>The decoder reads back what the encoder wrote.\<close>

lemma table_of_sextets:
  "list_all (\<lambda>n. table_a2b_base64 (urlsafe_decode_translation (b64char n)) = Some n
              \<and> urlsafe_decode_translation (b64char n) \<noteq> CHR ''='') [0..<64]"
  by code_simp

lemma table_b64char:
  assumes "n < 64"
  shows "table_a2b_base64 (urlsafe_decode_translation (b64char n)) = Some n"
    and "urlsafe_decode_translation (b64char n) \<noteq> CHR ''=''"
proof -
  from assms have "n \<in> set [0..<64]" by simp
  with table_of_sextets
  have "table_a2b_base64 (urlsafe_decode_translation (b64char n)) = Some n
          \<and> urlsafe_decode_translation (b64char n) \<noteq> CHR ''=''"
    unfolding list_all_iff by blast
  then show "table_a2b_base64 (urlsafe_decode_translation (b64char n)) = Some n"
    and "urlsafe_decode_translation (b64char n) \<noteq> CHR ''=''"
    by simp_all
qed

lemma a2b_sextet:
  assumes "n < 64"
  shows "a2b_base64 (urlsafe_decode_translation (b64char n) # rest) q l p out =
     (if q = 0 then a2b_base64 rest 1 n 0 out
      else if q = 1 then a2b_base64 rest 2 (n mod 16) 0 (out @ [char_of (l * 4 + n div 16)])
      else if q = 2 then a2b_base64 rest 3 (n mod 4) 0 (out @ [char_of (l * 16 + n div 4)])
      else a2b_base64 rest 0 0 0 (out @ [char_of (l * 64 + n)]))"
  using table_b64char[OF assms] by simp

lemma a2b_pad:
  "a2b_base64 (CHR ''='' # rest) q l p out =
     (if 2 \<le> q \<and> 4 \<le> q + (p + 1) then Some out
      else a2b_base64 rest q l (if 2 \<le> q then p + 1 else p) out)"
  by simp

lemma small_quotients:
  fixes b :: char
  shows "of_char b div 16 div 16 = (0::nat)"
    and "of_char b div 16 mod 16 = (of_char b div 16 :: nat)"
    and "of_char b div 64 div 4 = (0::nat)"
    and "of_char b div 64 mod 4 = (of_char b div 64 :: nat)"
proof -
  have "of_char b div 16 < (16::nat)"
    using of_char_below_256[of b] by (intro less_mult_imp_div_less) simp
  then show "of_char b div 16 div 16 = (0::nat)"
    and "of_char b div 16 mod 16 = (of_char b div 16 :: nat)"
    by simp_all
  have "of_char b div 64 < (4::nat)"
    using of_char_below_256[of b] by (intro less_mult_imp_div_less) simp
  then show "of_char b div 64 div 4 = (0::nat)"
    and "of_char b div 64 mod 4 = (of_char b div 64 :: nat)"
    by simp_all
qed

lemma a2b_quad:
  "a2b_base64
     (urlsafe_decode_translation (b64char (of_char a div 4)) #
      urlsafe_decode_translation (b64char ((of_char a mod 4) * 16 + of_char b div 16)) #
      urlsafe_decode_translation (b64char ((of_char b mod 16) * 4 + of_char c div 64)) #
      urlsafe_decode_translation (b64char (of_char c mod 64)) # rest) 0 l p out
   = a2b_base64 rest 0 0 0 (out @ [a, b, c])"
  by (simp del: a2b_base64.simps(2) add: a2b_sextet sextets small_quotients)

lemma a2b_of_encode:
  "a2b_base64 (map urlsafe_decode_translation (urlsafe_b64encode bs)) 0 l p out
     = Some (out @ bs)"
proof (induction bs arbitrary: l p out rule: urlsafe_b64encode.induct)
  case 1
  show ?case by simp
next
  case (2 a)
  have pad: "urlsafe_decode_translation CHR ''='' = CHR ''=''"
    by (simp add: urlsafe_decode_translation_def)
  show ?case
    by (simp del: a2b_base64.simps(2) add: a2b_sextet a2b_pad sextets pad)
next
  case (3 a b)
  have pad: "urlsafe_decode_translation CHR ''='' = CHR ''=''"
    by (simp add: urlsafe_decode_translation_def)
  show ?case
    by (simp del: a2b_base64.simps(2) add: a2b_sextet a2b_pad sextets pad small_quotients)
next
  case (4 a b c rest)
  show ?case
    using 4[of 0 0 "out @ [a, b, c]"] by (simp del: a2b_base64.simps(2) add: a2b_quad)
qed

lemma urlsafe_b64decode_encode: "urlsafe_b64decode (urlsafe_b64encode bs) = Some bs"
  unfolding urlsafe_b64decode_def
  using a2b_of_encode[of bs 0 0 "[]"] encode_is_ascii[of bs] by simp

lemma ascii_utf8_ok: "list_all (\<lambda>b. b < 128) bs \<Longrightarrow> utf8_ok bs"
  by (induction bs) auto

lemma decode_utf8_ascii: "is_ascii t \<Longrightarrow> decode_utf8 t = Some t"
  by (simp add: decode_utf8_def is_ascii_def ascii_utf8_ok list_all_iff)

lemma bang_not_encoded: "CHR ''!'' \<notin> set (urlsafe_b64encode bs)"
proof -
  have "CHR ''!'' \<notin> set urlsafe_alphabet \<union> {CHR ''=''}"
    by (simp add: urlsafe_alphabet_def)
  then show ?thesis
    using encode_chars[of bs] by blast
qed

section \<open>Facts about the scope parser\<close>

lemma group_is_not_property: "startswith s ''group:'' \<Longrightarrow> \<not> startswith s ''property:''"
  by (cases s) (auto simp: startswith_def)

lemma classify_properties:
  "classify xs = (gs, ps, us) \<Longrightarrow>
     ps = map after_colon (filter (\<lambda>t. startswith t ''property:'') xs)"
proof (induction xs arbitrary: gs ps us)
  case Nil
  then show ?case by simp
next
  case (Cons s rest)
  obtain g p u where tail: "classify rest = (g, p, u)"
    by (cases "classify rest") auto
  with Cons.IH have "p = map after_colon (filter (\<lambda>t. startswith t ''property:'') rest)"
    by blast
  with Cons.prems tail show ?case
    by (auto simp: group_is_not_property split: if_splits)
qed

lemma property_token: "startswith t ''property:'' \<Longrightarrow> t = ''property:'' @ after_colon t"
proof -
  assume "startswith t ''property:''"
  then have "take (length ''property:'') t = ''property:''"
    unfolding startswith_def .
  then have "t = ''property:'' @ drop (length ''property:'') t"
    by (metis append_take_drop_id)
  then obtain r where t: "t = ''property:'' @ r" by blast
  have "after_colon t = r"
    unfolding t after_colon_def by simp
  with t show ?thesis by simp
qed

lemma after_colon_inj: "inj_on after_colon {t. startswith t ''property:''}"
proof (rule inj_onI)
  fix x y
  assume "x \<in> {t. startswith t ''property:''}" "y \<in> {t. startswith t ''property:''}"
    "after_colon x = after_colon y"
  then show "x = y"
    using property_token[of x] property_token[of y] by simp
qed

lemma classify_groups:
  "classify xs = (gs, ps, us) \<Longrightarrow>
     gs = map after_colon (filter (\<lambda>t. startswith t ''group:'') xs)"
proof (induction xs arbitrary: gs ps us)
  case Nil
  then show ?case by simp
next
  case (Cons s rest)
  obtain g p u where tail: "classify rest = (g, p, u)"
    by (cases "classify rest") auto
  with Cons.IH have "g = map after_colon (filter (\<lambda>t. startswith t ''group:'') rest)"
    by blast
  with Cons.prems tail show ?case
    by (auto split: if_splits)
qed

lemma parsed_properties:
  assumes "parse_and_validate_scope R scope vo config = Inr info"
  shows "properties info =
           map after_colon
             (filter (\<lambda>t. startswith t ''property:'') (set_iter R (split_on CHR '' '' scope)))"
proof -
  obtain gs ps us where c: "classify (set_iter R (split_on CHR '' '' scope)) = (gs, ps, us)"
    by (cases "classify (set_iter R (split_on CHR '' '' scope))") auto
  from assms c have "properties info = ps"
    by (auto simp: parse_and_validate_scope_def Let_def then_do_def
             split: if_splits sum.splits)
  with classify_properties[OF c] show ?thesis by simp
qed

lemma set_iter_ok_example: "set_iter_ok example_runtime"
  by (simp add: set_iter_ok_def example_runtime_def)

section \<open>Facts about the token endpoint\<close>

lemma exchange_token_no_http:
  "exchange_token R g tok cfg \<noteq> Inl (HTTPException s m h)"
  by (auto simp: exchange_token_def then_do_def getitem_def Let_def
           split: option.splits if_splits)

lemma parse_no_http:
  "parse_and_validate_scope R scope vo cfg \<noteq> Inl (HTTPException s m h)"
  by (auto simp: parse_and_validate_scope_def then_do_def getitem_def first_item_def Let_def
           split: option.splits if_splits list.splits prod.splits)

lemma issue_no_http:
  "then_do (Inr info) (\<lambda>info.
      if info_status info \<noteq> READY then
        Inl (NotImplementedError (Unexpected_flow_status (info_status info)))
      else
        then_do (parse_and_validate_scope R (info_scope info) vo config) (\<lambda>parsed_scope.
          exchange_token R (group parsed_scope) (info_id_token info) config))
   \<noteq> Inl (HTTPException s m h)"
  using exchange_token_no_http parse_no_http
  by (auto simp: then_do_def split: sum.splits)

section \<open>The claims\<close>

text \<open>
  C1. The claim: the \<^verbatim>\<open>client_id\<close> presented at the token endpoint must equal
  the one recorded at initiation, with HTTP 400 on a mismatch, for both grants. The code
  compares the two in the device grant only. Evaluated at a ready authorization-code row
  recorded for \<open>myDIRACClientID\<close> and presented by \<open>someOtherClient\<close> with the right
  redirect URI and verifier: the authorization-code grant returns a token response,
  where the device grant on the same row raises HTTP 400 \<open>Bad client_id\<close>.
\<close>

theorem authorization_code_grant_ignores_client_id:
  "info_client_id example_row \<noteq> ''someOtherClient'' \<and>
   \<not> isl (token example_runtime ''lhcb'' ''authorization_code'' ''someOtherClient''
             (example_db (Inr example_row)) example_config None (Some ''code'')
             (Some ''http://localhost:8000/docs/oauth2-redirect'') (Some ''abc'')) \<and>
   token example_runtime ''lhcb'' device_code_grant ''someOtherClient''
       (example_db (Inr example_row)) example_config (Some ''code'') None None None
     = Inl (HTTPException 400 Bad_client_id [])"
  by code_simp

text \<open>
  C2. The claim: the JWT that \<^verbatim>\<open>exchange_token\<close> returns carries the claims
  \<open>sub\<close>, \<open>vo\<close>, \<open>aud\<close>, \<open>iss\<close>, \<open>dirac_properties\<close>, \<open>jti\<close>,
  \<open>preferred_username\<close>, \<open>dirac_group\<close> and an \<open>exp\<close> equal to now plus 180000
  seconds, and the response has \<open>expires_in = 180000\<close>. Evaluated at the first scenario
  of the specification: the token is issued with \<open>sub = lhcb:chaen\<close> and
  \<open>expires_in = 180000\<close>, and its payload has no \<open>exp\<close>:
  \<^verbatim>\<open>create_access_token\<close> adds \<open>exp\<close> to a copy and signs the original.
\<close>

theorem issued_token_has_no_exp:
  "\<not> isl (exchange_token example_runtime ''lhcb_user'' example_id_token example_config) \<and>
   jws_claims (access_token (projr
       (exchange_token example_runtime ''lhcb_user'' example_id_token example_config))) ''exp''
     = None \<and>
   jws_claims (access_token (projr
       (exchange_token example_runtime ''lhcb_user'' example_id_token example_config))) ''sub''
     = Some (Str ''lhcb:chaen'') \<and>
   expires_in (projr
       (exchange_token example_runtime ''lhcb_user'' example_id_token example_config))
     = 180000"
  by code_simp

text \<open>
  C3, as stated: decoding an encoded state gives the state back, and decoding any string
  that the codec did not produce fails with HTTP 400. The second half is false: the
  string below starts with \<open>!\<close>, which the encoder never writes, and
  \<^verbatim>\<open>decrypt_state\<close> skips the \<open>!\<close> and returns the state dict.
\<close>

theorem decrypt_state_accepts_foreign_string:
  "''!eyJ1c2VyX2NvZGUiOiAiQUJDRCIsICJjb2RlX3ZlcmlmaWVyIjogImFiYyJ9''
     \<notin> range (case_prod (encrypted_state example_runtime)) \<and>
   decrypt_state example_runtime
       ''!eyJ1c2VyX2NvZGUiOiAiQUJDRCIsICJjb2RlX3ZlcmlmaWVyIjogImFiYyJ9''
     = Inr example_state_json"
proof
  show "''!eyJ1c2VyX2NvZGUiOiAiQUJDRCIsICJjb2RlX3ZlcmlmaWVyIjogImFiYyJ9''
          \<notin> range (case_prod (encrypted_state example_runtime))"
  proof
    assume "''!eyJ1c2VyX2NvZGUiOiAiQUJDRCIsICJjb2RlX3ZlcmlmaWVyIjogImFiYyJ9''
              \<in> range (case_prod (encrypted_state example_runtime))"
    then obtain st cv where
      "''!eyJ1c2VyX2NvZGUiOiAiQUJDRCIsICJjb2RlX3ZlcmlmaWVyIjogImFiYyJ9''
         = encrypted_state example_runtime st cv"
      by auto
    then have "CHR ''!'' \<in> set (encrypted_state example_runtime st cv)"
      by (metis list.set_intros(1))
    then show False
      by (simp add: encrypted_state_def bang_not_encoded)
  qed
  show "decrypt_state example_runtime
          ''!eyJ1c2VyX2NvZGUiOiAiQUJDRCIsICJjb2RlX3ZlcmlmaWVyIjogImFiYyJ9''
        = Inr example_state_json"
    by code_simp
qed

text \<open>
  C3, amended: for every state and verifier, \<^verbatim>\<open>decrypt_state\<close> applied to the
  value of \<^verbatim>\<open>encrypted_state\<close> returns what \<^verbatim>\<open>json.loads\<close> reads from
  the text that \<^verbatim>\<open>json.dumps\<close> wrote (an ASCII text, as \<^verbatim>\<open>json.dumps\<close>
  writes by default), so the state comes back whenever the JSON library reads back what
  it wrote; and whenever \<^verbatim>\<open>decrypt_state\<close> fails, it fails with HTTP 400
  \<open>Invalid state\<close>. Nothing is said of strings that the codec did not produce.
\<close>

theorem decrypt_state_of_encrypted_state:
  "(json_loads R (json_dumps R (dict_set st ''code_verifier'' code_verifier)) = Some v \<longrightarrow>
    is_ascii (json_dumps R (dict_set st ''code_verifier'' code_verifier)) \<longrightarrow>
    decrypt_state R (encrypted_state R st code_verifier) = Inr v) \<and>
   (\<forall>e. decrypt_state R s = Inl e \<longrightarrow> e = HTTPException 400 Invalid_state [])"
proof (intro conjI impI allI)
  assume "json_loads R (json_dumps R (dict_set st ''code_verifier'' code_verifier)) = Some v"
    and "is_ascii (json_dumps R (dict_set st ''code_verifier'' code_verifier))"
  then show "decrypt_state R (encrypted_state R st code_verifier) = Inr v"
    by (simp add: decrypt_state_def encrypted_state_def urlsafe_b64decode_encode
                  decode_utf8_ascii)
next
  fix e
  assume "decrypt_state R s = Inl e"
  then show "e = HTTPException 400 Invalid_state []"
    by (auto simp: decrypt_state_def HTTP_400_BAD_REQUEST_def split: option.splits)
qed

theorem decrypt_state_of_encrypted_state_witness:
  "json_loads example_runtime
       (json_dumps example_runtime (dict_set [(''user_code'', ''ABCD'')] ''code_verifier'' ''abc''))
     = Some example_state_json \<and>
   is_ascii
       (json_dumps example_runtime (dict_set [(''user_code'', ''ABCD'')] ''code_verifier'' ''abc'')) \<and>
   decrypt_state example_runtime
       (encrypted_state example_runtime [(''user_code'', ''ABCD'')] ''abc'')
     = Inr example_state_json \<and>
   decrypt_state example_runtime ''e30'' = Inl (HTTPException 400 Invalid_state [])"
proof -
  have reads_back:
    "json_loads example_runtime
         (json_dumps example_runtime
            (dict_set [(''user_code'', ''ABCD'')] ''code_verifier'' ''abc''))
       = Some example_state_json"
    by code_simp
  have ascii:
    "is_ascii
       (json_dumps example_runtime
          (dict_set [(''user_code'', ''ABCD'')] ''code_verifier'' ''abc''))"
    by code_simp
  have fails: "decrypt_state example_runtime ''e30'' = Inl (HTTPException 400 Invalid_state [])"
    by code_simp
  show ?thesis
    using reads_back ascii fails
      decrypt_state_of_encrypted_state[of example_runtime "[(''user_code'', ''ABCD'')]"
        "''abc''" example_state_json "''e30''"]
    by simp
qed

text \<open>
  C4, as stated: the \<^verbatim>\<open>properties\<close> of the result are the
  \<^verbatim>\<open>property:<name>\<close> tokens as requested, in their order, duplicates kept. It
  is false: a scope that names \<open>NormalUser\<close> twice is valid, and the result holds it
  once.
\<close>

theorem repeated_property_is_kept_once:
  "\<not> isl (parse_and_validate_scope example_runtime
             ''group:lhcb_user property:NormalUser property:NormalUser'' ''lhcb''
             example_config) \<and>
   properties (projr (parse_and_validate_scope example_runtime
             ''group:lhcb_user property:NormalUser property:NormalUser'' ''lhcb''
             example_config))
     = [''NormalUser''] \<and>
   requested_properties ''group:lhcb_user property:NormalUser property:NormalUser''
     = [''NormalUser'', ''NormalUser'']"
  by code_simp

text \<open>
  C4, amended: for every valid scope string, the \<^verbatim>\<open>properties\<close> of the result
  hold each requested property name exactly once: the list has no duplicates and its
  elements are those of the requested list. The order is that of the iteration over the
  set of tokens, whatever it is.
\<close>

theorem properties_are_the_requested_set:
  assumes "set_iter_ok R"
      and "parse_and_validate_scope R scope vo config = Inr info"
  shows "distinct (properties info) \<and>
         set (properties info) = set (requested_properties scope)"
proof -
  let ?ts = "set_iter R (split_on CHR '' '' scope)"
  let ?p = "\<lambda>t. startswith t ''property:''"
  have d: "distinct ?ts" and s: "set ?ts = set (split_on CHR '' '' scope)"
    using assms(1) by (simp_all add: set_iter_ok_def)
  have p: "properties info = map after_colon (filter ?p ?ts)"
    by (rule parsed_properties[OF assms(2)])
  have "distinct (map after_colon (filter ?p ?ts))"
    using d by (auto simp: distinct_map intro: inj_on_subset[OF after_colon_inj])
  moreover have "set (map after_colon (filter ?p ?ts)) = set (requested_properties scope)"
    by (simp add: requested_properties_def s)
  ultimately show ?thesis
    using p by simp
qed

theorem properties_are_the_requested_set_witness:
  "set_iter_ok example_runtime \<and>
   parse_and_validate_scope example_runtime
       ''property:NormalUser group:lhcb_user property:NormalUser'' ''lhcb'' example_config
     = Inr \<lparr>group = ''lhcb_user'', properties = [''NormalUser'']\<rparr> \<and>
   distinct [''NormalUser''] \<and>
   set [''NormalUser'']
     = set (requested_properties ''property:NormalUser group:lhcb_user property:NormalUser'')"
proof -
  have parsed:
    "parse_and_validate_scope example_runtime
         ''property:NormalUser group:lhcb_user property:NormalUser'' ''lhcb'' example_config
       = Inr \<lparr>group = ''lhcb_user'', properties = [''NormalUser'']\<rparr>"
    by code_simp
  show ?thesis
    using properties_are_the_requested_set[OF set_iter_ok_example parsed]
      set_iter_ok_example parsed
    by simp
qed

text \<open>
  C5. The claim: \<^verbatim>\<open>parse_and_validate_scope\<close> returns a group that is in
  \<^verbatim>\<open>config.Registry.Groups[vo]\<close> or fails with ValueError, also when the scope
  names no group and the group is \<^verbatim>\<open>config.Registry.DefaultGroup[vo][0]\<close>.
  Evaluated at a scope without a group token and a configuration whose default group
  for \<open>lhcb\<close> is \<open>ghost\<close>, which \<open>lhcb\<close> does not have: the function returns \<open>ghost\<close>.
  The membership check of the docstring is made for a named group only.
\<close>

theorem default_group_is_not_checked:
  "parse_and_validate_scope example_runtime ''property:NormalUser'' ''lhcb''
       example_config_ghost
     = Inr \<lparr>group = ''ghost'', properties = [''NormalUser'']\<rparr> \<and>
   map_option (\<lambda>vo_groups. vo_groups ''ghost'')
       (Groups (Registry example_config_ghost) ''lhcb'')
     = Some None"
  by code_simp

text \<open>
  C6. At the token endpoint with the device grant, a flow for which the store raises
  PendingAuthorizationError gives the DiracHttpResponse with status 400 and body
  \<^verbatim>\<open>{"error": "authorization_pending"}\<close>, and a flow for which it raises
  ExpiredFlowError gives status 400 and body \<^verbatim>\<open>{"error": "expired_token"}\<close>:
  the plain dict, not an HTTPException with a detail.
\<close>

theorem device_grant_pending_and_expired:
  "(get_device_flow auth_db dc DEVICE_FLOW_EXPIRATION_SECONDS = Inl PendingAuthorizationError
      \<longrightarrow>
      token R vo device_code_grant client_id auth_db config (Some dc) code redirect_uri
          code_verifier
        = Inl (DiracHttpResponse 400 [(''error'', ''authorization_pending'')])) \<and>
   (get_device_flow auth_db dc DEVICE_FLOW_EXPIRATION_SECONDS = Inl ExpiredFlowError
      \<longrightarrow>
      token R vo device_code_grant client_id auth_db config (Some dc) code redirect_uri
          code_verifier
        = Inl (DiracHttpResponse 400 [(''error'', ''expired_token'')]))"
  by (simp add: token_def then_do_def HTTP_400_BAD_REQUEST_def)

theorem device_grant_pending_and_expired_witness:
  "get_device_flow (example_db (Inl PendingAuthorizationError)) ''device-code''
       DEVICE_FLOW_EXPIRATION_SECONDS
     = Inl PendingAuthorizationError \<and>
   token example_runtime ''lhcb'' device_code_grant DIRAC_CLIENT_ID
       (example_db (Inl PendingAuthorizationError)) example_config (Some ''device-code'')
       None None None
     = Inl (DiracHttpResponse 400 [(''error'', ''authorization_pending'')]) \<and>
   get_device_flow (example_db (Inl ExpiredFlowError)) ''device-code''
       DEVICE_FLOW_EXPIRATION_SECONDS
     = Inl ExpiredFlowError \<and>
   token example_runtime ''lhcb'' device_code_grant DIRAC_CLIENT_ID
       (example_db (Inl ExpiredFlowError)) example_config (Some ''device-code'')
       None None None
     = Inl (DiracHttpResponse 400 [(''error'', ''expired_token'')])"
proof -
  have pending:
    "get_device_flow (example_db (Inl PendingAuthorizationError)) ''device-code''
         DEVICE_FLOW_EXPIRATION_SECONDS
       = Inl PendingAuthorizationError"
    by (simp add: example_db_def)
  have expired:
    "get_device_flow (example_db (Inl ExpiredFlowError)) ''device-code''
         DEVICE_FLOW_EXPIRATION_SECONDS
       = Inl ExpiredFlowError"
    by (simp add: example_db_def)
  show ?thesis
    using pending expired
      device_grant_pending_and_expired[of "example_db (Inl PendingAuthorizationError)"
        "''device-code''" example_runtime "''lhcb''" DIRAC_CLIENT_ID example_config
        None None None]
      device_grant_pending_and_expired[of "example_db (Inl ExpiredFlowError)"
        "''device-code''" example_runtime "''lhcb''" DIRAC_CLIENT_ID example_config
        None None None]
    by simp
qed

text \<open>
  C7. For every verifier, the S256 challenge that the token endpoint computes (padding
  removed with \<^verbatim>\<open>strip\<close>) equals the one derived when the authorization URL is
  built (padding removed with \<^verbatim>\<open>replace\<close>), for any hash function. So, for a
  row that the store returns for the code: when the stored challenge is the one derived
  from the verifier, the PKCE check of the authorization-code grant passes, that is,
  the request is rejected for its redirect URI if that differs from the stored one, and
  otherwise goes on to the status check, the scope validation and the exchange, whose
  result is the result of the request; and when the computed challenge differs from
  the stored one, the grant fails with an HTTPException of status 400
  (\<open>Invalid code_challenge\<close>, or \<open>Invalid redirect_uri\<close> if the redirect URI differs
  too).
\<close>

theorem pkce_challenge_of_verifier:
  "token_code_challenge R verifier = iam_code_challenge R verifier \<and>
   (get_authorization_flow auth_db c AUTHORIZATION_FLOW_EXPIRATION_SECONDS = Inr info \<longrightarrow>
      info_code_challenge info = iam_code_challenge R verifier \<longrightarrow>
      token R vo ''authorization_code'' client_id auth_db config device_code (Some c)
          redirect_uri (Some verifier)
        = (if redirect_uri \<noteq> Some (info_redirect_uri info) then
             Inl (HTTPException 400 Invalid_redirect_uri [])
           else if info_status info \<noteq> READY then
             Inl (NotImplementedError (Unexpected_flow_status (info_status info)))
           else
             then_do (parse_and_validate_scope R (info_scope info) vo config)
               (\<lambda>parsed_scope.
                  exchange_token R (group parsed_scope) (info_id_token info) config))) \<and>
   (get_authorization_flow auth_db c AUTHORIZATION_FLOW_EXPIRATION_SECONDS = Inr info \<longrightarrow>
      token_code_challenge R verifier \<noteq> info_code_challenge info \<longrightarrow>
      token R vo ''authorization_code'' client_id auth_db config device_code (Some c)
          redirect_uri (Some verifier)
        = Inl (HTTPException 400
                 (if redirect_uri \<noteq> Some (info_redirect_uri info) then Invalid_redirect_uri
                  else Invalid_code_challenge) []))"
proof (intro conjI impI)
  show same: "token_code_challenge R verifier = iam_code_challenge R verifier"
    by (simp add: token_code_challenge_def iam_code_challenge_def strip_is_replace)
  {
    assume row: "get_authorization_flow auth_db c AUTHORIZATION_FLOW_EXPIRATION_SECONDS = Inr info"
      and stored: "info_code_challenge info = iam_code_challenge R verifier"
    show "token R vo ''authorization_code'' client_id auth_db config device_code (Some c)
              redirect_uri (Some verifier)
            = (if redirect_uri \<noteq> Some (info_redirect_uri info) then
                 Inl (HTTPException 400 Invalid_redirect_uri [])
               else if info_status info \<noteq> READY then
                 Inl (NotImplementedError (Unexpected_flow_status (info_status info)))
               else
                 then_do (parse_and_validate_scope R (info_scope info) vo config)
                   (\<lambda>parsed_scope.
                      exchange_token R (group parsed_scope) (info_id_token info) config))"
      using row stored same
      by (simp add: token_def device_code_grant_def then_do_def HTTP_400_BAD_REQUEST_def)
  }
  {
    assume row: "get_authorization_flow auth_db c AUTHORIZATION_FLOW_EXPIRATION_SECONDS = Inr info"
      and differs: "token_code_challenge R verifier \<noteq> info_code_challenge info"
    show "token R vo ''authorization_code'' client_id auth_db config device_code (Some c)
              redirect_uri (Some verifier)
            = Inl (HTTPException 400
                     (if redirect_uri \<noteq> Some (info_redirect_uri info)
                      then Invalid_redirect_uri else Invalid_code_challenge) [])"
      using row differs
      by (simp add: token_def device_code_grant_def then_do_def HTTP_400_BAD_REQUEST_def)
  }
qed

theorem pkce_challenge_of_verifier_witness:
  "get_authorization_flow (example_db (Inr example_row)) ''code''
       AUTHORIZATION_FLOW_EXPIRATION_SECONDS
     = Inr example_row \<and>
   info_code_challenge example_row = iam_code_challenge example_runtime ''abc'' \<and>
   token_code_challenge example_runtime ''abc'' = iam_code_challenge example_runtime ''abc'' \<and>
   token example_runtime ''lhcb'' ''authorization_code'' DIRAC_CLIENT_ID
       (example_db (Inr example_row)) example_config None (Some ''code'')
       (Some ''http://localhost:8000/docs/oauth2-redirect'') (Some ''abc'')
     = Inr example_response \<and>
   token_code_challenge example_runtime ''wrong'' \<noteq> info_code_challenge example_row \<and>
   token example_runtime ''lhcb'' ''authorization_code'' DIRAC_CLIENT_ID
       (example_db (Inr example_row)) example_config None (Some ''code'')
       (Some ''http://localhost:8000/docs/oauth2-redirect'') (Some ''wrong'')
     = Inl (HTTPException 400 Invalid_code_challenge [])"
proof -
  have row:
    "get_authorization_flow (example_db (Inr example_row)) ''code''
         AUTHORIZATION_FLOW_EXPIRATION_SECONDS
       = Inr example_row"
    by (simp add: example_db_def)
  have stored: "info_code_challenge example_row = iam_code_challenge example_runtime ''abc''"
    by code_simp
  have differs:
    "token_code_challenge example_runtime ''wrong'' \<noteq> info_code_challenge example_row"
    by code_simp
  have redirect:
    "Some ''http://localhost:8000/docs/oauth2-redirect'' = Some (info_redirect_uri example_row)"
    by (simp add: example_row_def)
  have ready: "info_status example_row = READY"
    by (simp add: example_row_def)
  have issued:
    "then_do (parse_and_validate_scope example_runtime (info_scope example_row) ''lhcb''
                example_config)
       (\<lambda>parsed_scope.
          exchange_token example_runtime (group parsed_scope) (info_id_token example_row)
            example_config)
     = Inr example_response"
    by code_simp
  show ?thesis
    using row stored differs redirect ready issued
      pkce_challenge_of_verifier[of example_runtime "''abc''" "example_db (Inr example_row)"
        "''code''" example_row "''lhcb''" DIRAC_CLIENT_ID example_config None
        "Some ''http://localhost:8000/docs/oauth2-redirect''"]
      pkce_challenge_of_verifier[of example_runtime "''wrong''" "example_db (Inr example_row)"
        "''code''" example_row "''lhcb''" DIRAC_CLIENT_ID example_config None
        "Some ''http://localhost:8000/docs/oauth2-redirect''"]
    by simp
qed

text \<open>
  C8, as stated: an initiation request with an unknown \<^verbatim>\<open>client_id\<close>, or an
  authorize request with a redirect URI that is not allowed, is answered with HTTP 400.
  It is false: for the unknown client below, \<^verbatim>\<open>initiate_device_flow\<close> raises
  AssertionError, which carries no status 400.
\<close>

theorem unknown_client_is_not_answered_400:
  "KNOWN_CLIENTS ''unknownClient'' = None \<and>
   initiate_device_flow example_runtime ''lhcb'' ''unknownClient''
       ''group:lhcb_user property:NormalUser'' ''dirac''
       ''http://localhost:8000/auth/lhcb/device'' (example_db (Inr example_row))
       example_config
     = Inl AssertionError \<and>
   http_status AssertionError \<noteq> Some 400"
  by code_simp

text \<open>
  C8, amended: for every initiation request (device or authorize) whose
  \<^verbatim>\<open>client_id\<close> is not in the known-clients table, and for every authorize
  request whose redirect URI is not among the client's allowed redirects, the endpoint
  raises AssertionError, before the scope is read and before the store is called.
\<close>

theorem unknown_client_raises_assertion_error:
  "(KNOWN_CLIENTS client_id = None \<longrightarrow>
      initiate_device_flow R vo client_id scope audience url auth_db config
        = Inl AssertionError \<and>
      authorization_flow R vo url response_type code_challenge code_challenge_method
          client_id redirect_uri scope st auth_db config
        = Inl AssertionError) \<and>
   (\<forall>allowed_redirects.
      KNOWN_CLIENTS client_id = Some allowed_redirects \<longrightarrow>
      redirect_uri \<notin> set allowed_redirects \<longrightarrow>
      authorization_flow R vo url response_type code_challenge code_challenge_method
          client_id redirect_uri scope st auth_db config
        = Inl AssertionError)"
  by (simp add: initiate_device_flow_def authorization_flow_def)

theorem unknown_client_raises_assertion_error_witness:
  "KNOWN_CLIENTS ''unknownClient'' = None \<and>
   initiate_device_flow example_runtime ''lhcb'' ''unknownClient'' ''group:lhcb_user''
       ''dirac'' ''http://localhost:8000/auth/lhcb/device'' (example_db (Inr example_row))
       example_config
     = Inl AssertionError \<and>
   authorization_flow example_runtime ''lhcb'' ''http://localhost:8000/auth/lhcb/authorize''
       ''code'' ''challenge'' ''S256'' ''unknownClient''
       ''http://localhost:8000/docs/oauth2-redirect'' ''group:lhcb_user'' ''xyz''
       (example_db (Inr example_row)) example_config
     = Inl AssertionError \<and>
   KNOWN_CLIENTS DIRAC_CLIENT_ID = Some [''http://localhost:8000/docs/oauth2-redirect''] \<and>
   ''http://evil.example/cb'' \<notin> set [''http://localhost:8000/docs/oauth2-redirect''] \<and>
   authorization_flow example_runtime ''lhcb'' ''http://localhost:8000/auth/lhcb/authorize''
       ''code'' ''challenge'' ''S256'' DIRAC_CLIENT_ID ''http://evil.example/cb''
       ''group:lhcb_user'' ''xyz'' (example_db (Inr example_row)) example_config
     = Inl AssertionError"
proof -
  have unknown: "KNOWN_CLIENTS ''unknownClient'' = None"
    by (simp add: KNOWN_CLIENTS_def DIRAC_CLIENT_ID_def)
  have known:
    "KNOWN_CLIENTS DIRAC_CLIENT_ID = Some [''http://localhost:8000/docs/oauth2-redirect'']"
    by (simp add: KNOWN_CLIENTS_def)
  have evil: "''http://evil.example/cb'' \<notin> set [''http://localhost:8000/docs/oauth2-redirect'']"
    by simp
  show ?thesis
    using unknown known evil
      unknown_client_raises_assertion_error[of "''unknownClient''" example_runtime "''lhcb''"
        "''group:lhcb_user''" "''dirac''" "''http://localhost:8000/auth/lhcb/device''"
        "example_db (Inr example_row)" example_config]
      unknown_client_raises_assertion_error[of "''unknownClient''" example_runtime "''lhcb''"
        "''group:lhcb_user''" _ "''http://localhost:8000/auth/lhcb/authorize''"
        "example_db (Inr example_row)" example_config "''code''" "''challenge''" "''S256''"
        "''http://localhost:8000/docs/oauth2-redirect''" "''xyz''"]
      unknown_client_raises_assertion_error[of DIRAC_CLIENT_ID example_runtime "''lhcb''"
        "''group:lhcb_user''" _ "''http://localhost:8000/auth/lhcb/authorize''"
        "example_db (Inr example_row)" example_config "''code''" "''challenge''" "''S256''"
        "''http://evil.example/cb''" "''xyz''"]
    by simp
qed

text \<open>
  C9. For every id_token whose \<open>sub\<close> is not one of the two UUIDs of
  \<^verbatim>\<open>SID_TO_USERNAME\<close> (or is missing), \<^verbatim>\<open>exchange_token\<close> raises
  KeyError, whatever the group and the configuration are: the lookup comes before the
  membership check, so no token is issued and the error is not the ValueError of a
  user who is not a member of the group.
\<close>

theorem unknown_subject_raises_key_error:
  assumes "id_token ''sub'' \<noteq> Some ''b824d4dc-1f9d-4ee8-8df5-c0ae55d46041''"
      and "id_token ''sub'' \<noteq> Some ''59382c3f-181c-4df8-981d-ec3e9015fcb9''"
  shows "\<exists>k. exchange_token R dirac_group id_token config = Inl (KeyError k)"
  using assms
  by (auto simp: exchange_token_def then_do_def getitem_def SID_TO_USERNAME_def
           split: option.splits)

theorem unknown_subject_raises_key_error_witness:
  "(example_id_token(''sub'' \<mapsto> ''0000'')) ''sub''
     \<noteq> Some ''b824d4dc-1f9d-4ee8-8df5-c0ae55d46041'' \<and>
   (example_id_token(''sub'' \<mapsto> ''0000'')) ''sub''
     \<noteq> Some ''59382c3f-181c-4df8-981d-ec3e9015fcb9'' \<and>
   (\<exists>k. exchange_token example_runtime ''lhcb_user'' (example_id_token(''sub'' \<mapsto> ''0000''))
           example_config
         = Inl (KeyError k))"
  using unknown_subject_raises_key_error[of "example_id_token(''sub'' \<mapsto> ''0000'')"
      example_runtime "''lhcb_user''" example_config]
  by simp

text \<open>
  C10. The claim: \<^verbatim>\<open>serve_config\<close> answers 304 if and only if If-None-Match
  equals the ETag, or If-Modified-Since parses and is strictly newer than the
  configuration's modification time; otherwise it returns the configuration; both
  outcomes carry the ETag and Last-Modified headers. Evaluated on a server whose local
  time is one hour ahead of UTC, with a configuration modified at 00:00:00 GMT, a wrong
  ETag and \<open>If-Modified-Since: Mon, 01 Jan 2024 00:30:00 GMT\<close>: the header parses and
  is newer than the modification time, and the configuration is returned, because the
  parsed time is read as local time. With local time equal to UTC the answer is 304.
\<close>

theorem if_modified_since_is_read_as_local_time:
  "hexsha example_config \<noteq> ''wrongEtag'' \<and>
   strptime example_runtime ''Mon, 01 Jan 2024 00:30:00 GMT'' = Some 1704069000 \<and>
   modified example_config < 1704069000 \<and>
   astimezone_utc example_runtime 1704069000 = Inr (1704069000 - 3600) \<and>
   serve_config example_runtime ''lhcb'' example_config (Some ''wrongEtag'')
       (Some ''Mon, 01 Jan 2024 00:30:00 GMT'')
     = Inr (example_config,
            [(''ETag'', hexsha example_config),
             (''Last-Modified'', strftime example_runtime (modified example_config))]) \<and>
   serve_config (example_runtime\<lparr>astimezone_utc := Inr\<rparr>) ''lhcb'' example_config
       (Some ''wrongEtag'') (Some ''Mon, 01 Jan 2024 00:30:00 GMT'')
     = Inl (HTTPException 304 No_detail
            [(''ETag'', hexsha example_config),
             (''Last-Modified'', strftime example_runtime (modified example_config))])"
  by (simp add: serve_config_def example_runtime_def example_config_def
                HTTP_304_NOT_MODIFIED_def)

section \<open>Further properties of the code\<close>

text \<open>
  The authorization-code grant of \<^verbatim>\<open>token\<close> gives the same result for every
  \<^verbatim>\<open>client_id\<close>: the branch never reads it.
\<close>

theorem authorization_code_grant_same_for_all_clients:
  "token R vo ''authorization_code'' client_id auth_db config device_code code redirect_uri
       code_verifier
   = token R vo ''authorization_code'' other_client auth_db config device_code code
       redirect_uri code_verifier"
  by (simp add: token_def device_code_grant_def)

text \<open>
  Every response of \<^verbatim>\<open>exchange_token\<close> has \<open>expires_in = 180000\<close> and a token
  signed under the algorithm and key of the secrets, whose payload is exactly the eight
  claims \<open>sub = vo:subId\<close>, \<open>vo\<close>, \<open>aud\<close>, \<open>iss\<close>, \<open>dirac_properties\<close> (those of
  the group), \<open>jti\<close>, \<open>preferred_username\<close> and \<open>dirac_group\<close>, for a subject that
  \<^verbatim>\<open>SID_TO_USERNAME\<close> maps to a user of the group; it has no \<open>exp\<close>.
\<close>

theorem issued_token_claims:
  assumes "exchange_token R dirac_group id_token config = Inr r"
  shows "jws_claims (access_token r) ''exp'' = None \<and> expires_in r = 180000 \<and>
     (\<exists>vo sub subId name vo_groups g.
        id_token ''organisation_name'' = Some vo \<and> id_token ''sub'' = Some sub \<and>
        SID_TO_USERNAME sub = Some subId \<and> id_token ''preferred_username'' = Some name \<and>
        Groups (Registry config) vo = Some vo_groups \<and> vo_groups dirac_group = Some g \<and>
        subId \<in> set (Users g) \<and>
        access_token r = JWS [(''alg'', token_algorithm R)]
          [(''sub'', Str (vo @ '':'' @ subId)), (''vo'', Str vo), (''aud'', Str ''dirac''),
           (''iss'', Str ''http://lhcbdirac.cern.ch/''),
           (''dirac_properties'', StrList (Properties g)), (''jti'', Str (uuid4 R)),
           (''preferred_username'', Str name), (''dirac_group'', Str dirac_group)]
          (token_key R))"
  using assms
  by (auto simp: exchange_token_def then_do_def getitem_def create_access_token_def Let_def
                 ACCESS_TOKEN_EXPIRE_MINUTES_def AUDIENCE_def ISSUER_def
           split: option.splits if_splits)

theorem issued_token_claims_witness:
  "exchange_token example_runtime ''lhcb_user'' example_id_token example_config
     = Inr example_response \<and>
   jws_claims (access_token example_response) ''exp'' = None \<and>
   expires_in example_response = 180000"
proof -
  have issued:
    "exchange_token example_runtime ''lhcb_user'' example_id_token example_config
       = Inr example_response"
    by code_simp
  show ?thesis
    using issued issued_token_claims[OF issued] by simp
qed

text \<open>
  The answers of \<^verbatim>\<open>serve_config\<close>, case by case. When If-None-Match equals
  the ETag it raises the HTTPException 304, whatever If-Modified-Since is. Otherwise:
  without If-Modified-Since, with an empty one, with one that does not parse, or with
  one whose conversion raises ValueError, it returns the configuration; with one that
  parses and converts, it raises 304 when the converted time is later than the
  modification time and returns the configuration when it is not; and an exception of
  the conversion that is not a ValueError leaves the function. The 304 and the returned
  configuration carry the ETag and Last-Modified headers.
\<close>

theorem serve_config_answer:
  "(if_none_match = Some (hexsha config) \<longrightarrow>
      serve_config R vo config if_none_match if_modified_since
        = Inl (HTTPException 304 No_detail
                 [(''ETag'', hexsha config),
                  (''Last-Modified'', strftime R (modified config))])) \<and>
   (if_none_match \<noteq> Some (hexsha config) \<longrightarrow>
      (if_modified_since = None \<or> if_modified_since = Some [] \<or>
       (\<exists>s. if_modified_since = Some s \<and>
          (strptime R s = None \<or>
           (\<exists>t m. strptime R s = Some t \<and> astimezone_utc R t = Inl (ValueError m))))) \<longrightarrow>
      serve_config R vo config if_none_match if_modified_since
        = Inr (config,
               [(''ETag'', hexsha config),
                (''Last-Modified'', strftime R (modified config))])) \<and>
   (if_none_match \<noteq> Some (hexsha config) \<longrightarrow>
      if_modified_since = Some s \<longrightarrow> s \<noteq> [] \<longrightarrow> strptime R s = Some t \<longrightarrow>
      astimezone_utc R t = Inr not_before \<longrightarrow>
      serve_config R vo config if_none_match if_modified_since
        = (if modified config < not_before
           then Inl (HTTPException 304 No_detail
                       [(''ETag'', hexsha config),
                        (''Last-Modified'', strftime R (modified config))])
           else Inr (config,
                     [(''ETag'', hexsha config),
                      (''Last-Modified'', strftime R (modified config))]))) \<and>
   (if_none_match \<noteq> Some (hexsha config) \<longrightarrow>
      if_modified_since = Some s \<longrightarrow> s \<noteq> [] \<longrightarrow> strptime R s = Some t \<longrightarrow>
      astimezone_utc R t = Inl e \<longrightarrow> (\<forall>m. e \<noteq> ValueError m) \<longrightarrow>
      serve_config R vo config if_none_match if_modified_since = Inl e)"
  by (auto simp: serve_config_def Let_def HTTP_304_NOT_MODIFIED_def
           split: option.splits sum.splits error.splits)

theorem serve_config_answer_witness:
  "serve_config example_runtime ''lhcb'' example_config (Some (hexsha example_config))
       (Some ''wrong format'')
     = Inl (HTTPException 304 No_detail
              [(''ETag'', hexsha example_config),
               (''Last-Modified'', strftime example_runtime (modified example_config))]) \<and>
   ''pastEtag'' \<noteq> hexsha example_config \<and>
   strptime example_runtime ''wrong format'' = None \<and>
   serve_config example_runtime ''lhcb'' example_config (Some ''pastEtag'')
       (Some ''wrong format'')
     = Inr (example_config,
            [(''ETag'', hexsha example_config),
             (''Last-Modified'', strftime example_runtime (modified example_config))]) \<and>
   strptime example_runtime ''Mon, 01 Jan 2024 00:30:00 GMT'' = Some 1704069000 \<and>
   astimezone_utc (example_runtime\<lparr>astimezone_utc := Inr\<rparr>) 1704069000 = Inr 1704069000 \<and>
   modified example_config < 1704069000 \<and>
   serve_config (example_runtime\<lparr>astimezone_utc := Inr\<rparr>) ''lhcb'' example_config
       (Some ''pastEtag'') (Some ''Mon, 01 Jan 2024 00:30:00 GMT'')
     = Inl (HTTPException 304 No_detail
              [(''ETag'', hexsha example_config),
               (''Last-Modified'', strftime example_runtime (modified example_config))]) \<and>
   astimezone_utc (example_runtime\<lparr>astimezone_utc := \<lambda>t. Inl OverflowError\<rparr>) 1704069000
     = Inl OverflowError \<and>
   serve_config (example_runtime\<lparr>astimezone_utc := \<lambda>t. Inl OverflowError\<rparr>) ''lhcb''
       example_config (Some ''pastEtag'') (Some ''Mon, 01 Jan 2024 00:30:00 GMT'')
     = Inl OverflowError"
proof -
  have etag: "Some ''pastEtag'' \<noteq> Some (hexsha example_config)"
    by (simp add: example_config_def)
  have unparsed: "strptime example_runtime ''wrong format'' = None"
    by (simp add: example_runtime_def)
  have parsed:
    "strptime example_runtime ''Mon, 01 Jan 2024 00:30:00 GMT'' = Some 1704069000"
    by (simp add: example_runtime_def)
  have later: "modified example_config < 1704069000"
    by (simp add: example_config_def)
  show ?thesis
    using etag unparsed parsed later
      serve_config_answer[of "Some (hexsha example_config)" example_config example_runtime
        "''lhcb''" "Some ''wrong format''"]
      serve_config_answer[of "Some ''pastEtag''" example_config example_runtime
        "''lhcb''" "Some ''wrong format''"]
      serve_config_answer[of "Some ''pastEtag''" example_config
        "example_runtime\<lparr>astimezone_utc := Inr\<rparr>" "''lhcb''"
        "Some ''Mon, 01 Jan 2024 00:30:00 GMT''" "''Mon, 01 Jan 2024 00:30:00 GMT''"
        1704069000 1704069000]
      serve_config_answer[of "Some ''pastEtag''" example_config
        "example_runtime\<lparr>astimezone_utc := \<lambda>t. Inl OverflowError\<rparr>" "''lhcb''"
        "Some ''Mon, 01 Jan 2024 00:30:00 GMT''" "''Mon, 01 Jan 2024 00:30:00 GMT''"
        1704069000 _ OverflowError]
    by (simp add: example_runtime_def)
qed

text \<open>
  When the scope names a group and \<^verbatim>\<open>parse_and_validate_scope\<close> returns, the
  group of the result is a group of the VO in the configuration.
\<close>

theorem named_group_is_in_the_vo:
  assumes "set_iter_ok R"
      and "list_ex (\<lambda>t. startswith t ''group:'') (split_on CHR '' '' scope)"
      and "parse_and_validate_scope R scope vo config = Inr info"
  shows "\<exists>vo_groups g. Groups (Registry config) vo = Some vo_groups \<and>
           vo_groups (group info) = Some g"
proof -
  let ?ts = "set_iter R (split_on CHR '' '' scope)"
  obtain gs ps us where c: "classify ?ts = (gs, ps, us)"
    by (cases "classify ?ts") auto
  have "set ?ts = set (split_on CHR '' '' scope)"
    using assms(1) by (simp add: set_iter_ok_def)
  with assms(2) have "filter (\<lambda>t. startswith t ''group:'') ?ts \<noteq> []"
    by (auto simp: list_ex_iff filter_empty_conv)
  with classify_groups[OF c] have "gs \<noteq> []" by simp
  with assms(3) c show ?thesis
    by (auto simp: parse_and_validate_scope_def Let_def then_do_def getitem_def
             split: if_splits sum.splits list.splits option.splits)
qed

theorem named_group_is_in_the_vo_witness:
  "set_iter_ok example_runtime \<and>
   list_ex (\<lambda>t. startswith t ''group:'')
       (split_on CHR '' '' ''group:lhcb_user property:NormalUser'') \<and>
   parse_and_validate_scope example_runtime ''group:lhcb_user property:NormalUser'' ''lhcb''
       example_config
     = Inr \<lparr>group = ''lhcb_user'', properties = [''NormalUser'']\<rparr> \<and>
   (\<exists>vo_groups g. Groups (Registry example_config) ''lhcb'' = Some vo_groups \<and>
        vo_groups ''lhcb_user'' = Some g)"
proof -
  have named:
    "list_ex (\<lambda>t. startswith t ''group:'')
       (split_on CHR '' '' ''group:lhcb_user property:NormalUser'')"
    by code_simp
  have parsed:
    "parse_and_validate_scope example_runtime ''group:lhcb_user property:NormalUser'' ''lhcb''
         example_config
       = Inr \<lparr>group = ''lhcb_user'', properties = [''NormalUser'']\<rparr>"
    by code_simp
  show ?thesis
    using named_group_is_in_the_vo[OF set_iter_ok_example named parsed]
      set_iter_ok_example named parsed
    by simp
qed

text \<open>
  When the scope names no group and \<^verbatim>\<open>parse_and_validate_scope\<close> returns, the
  group of the result is the first default group of the VO, whether or not the VO has
  such a group.
\<close>

theorem unnamed_group_is_the_default:
  assumes "set_iter_ok R"
      and "\<not> list_ex (\<lambda>t. startswith t ''group:'') (split_on CHR '' '' scope)"
      and "parse_and_validate_scope R scope vo config = Inr info"
  shows "\<exists>others. DefaultGroup (Registry config) vo = Some (group info # others)"
proof -
  let ?ts = "set_iter R (split_on CHR '' '' scope)"
  obtain gs ps us where c: "classify ?ts = (gs, ps, us)"
    by (cases "classify ?ts") auto
  have "set ?ts = set (split_on CHR '' '' scope)"
    using assms(1) by (simp add: set_iter_ok_def)
  with assms(2) have "filter (\<lambda>t. startswith t ''group:'') ?ts = []"
    by (auto simp: list_ex_iff filter_empty_conv)
  with classify_groups[OF c] have "gs = []" by simp
  with assms(3) c show ?thesis
    by (auto simp: parse_and_validate_scope_def Let_def then_do_def getitem_def
                   first_item_def
             split: if_splits sum.splits list.splits option.splits)
qed

theorem unnamed_group_is_the_default_witness:
  "set_iter_ok example_runtime \<and>
   \<not> list_ex (\<lambda>t. startswith t ''group:'') (split_on CHR '' '' ''property:NormalUser'') \<and>
   parse_and_validate_scope example_runtime ''property:NormalUser'' ''lhcb''
       example_config_ghost
     = Inr \<lparr>group = ''ghost'', properties = [''NormalUser'']\<rparr> \<and>
   (\<exists>others. DefaultGroup (Registry example_config_ghost) ''lhcb'' = Some (''ghost'' # others))"
proof -
  have unnamed:
    "\<not> list_ex (\<lambda>t. startswith t ''group:'') (split_on CHR '' '' ''property:NormalUser'')"
    by code_simp
  have parsed:
    "parse_and_validate_scope example_runtime ''property:NormalUser'' ''lhcb''
         example_config_ghost
       = Inr \<lparr>group = ''ghost'', properties = [''NormalUser'']\<rparr>"
    by code_simp
  show ?thesis
    using unnamed_group_is_the_default[OF set_iter_ok_example unnamed parsed]
      set_iter_ok_example unnamed parsed
    by simp
qed

end
